theory Spec2Isabelle
  imports Complex_Main "HOL-Library.Sublist"
begin

section \<open>The Go library functions the package calls\<close>

text \<open>
  The package \<open>env\<close> (file \<open>env.go\<close>) reads the process environment and the
  \<open>*.env\<close> files beside the binary, and converts the values it finds. The definitions
  below follow the version of \<open>env.go\<close> that has the variable \<open>envMap\<close> and the function
  \<open>init\<close>, in which every accessor resolves its value through \<open>GetEnvString\<close>. It is built on
  functions of Go's standard library. A Go string is a sequence of bytes; it is modelled
  as a \<open>string\<close>, one \<open>char\<close> per byte. The string functions \<open>strings.TrimSpace\<close>,
  \<open>strings.HasPrefix\<close>, \<open>strings.Index\<close>, \<open>strings.Count\<close>, \<open>strings.Split\<close> and
  \<open>strings.SplitN\<close> and the parser \<open>strconv.ParseBool\<close> are written out below as the
  library defines them. The parsers \<open>strconv.Atoi\<close>, \<open>strconv.ParseFloat\<close> and
  \<open>time.ParseDuration\<close>, and \<open>strconv.Quote\<close>, which formats the text of a parse error,
  are parameters of the model (record \<open>stdlib\<close>): everything proved holds for whatever
  they compute.
\<close>

subsection \<open>strings.TrimSpace and strings.HasPrefix\<close>

text \<open>
  \<open>TrimSpace\<close> removes the leading and the trailing white space, as Unicode defines it.
  \<open>whiteSpace\<close> lists the UTF-8 encodings of the code points of \<open>unicode.IsSpace\<close>:
  U+0009 to U+000D, U+0020, U+0085, U+00A0, U+1680, U+2000 to U+200A, U+2028, U+2029,
  U+202F, U+205F and U+3000.
\<close>

definition whiteSpace :: "string list" where
  "whiteSpace =
     [[CHR 0x09], [CHR 0x0A], [CHR 0x0B], [CHR 0x0C], [CHR 0x0D], [CHR 0x20],
      [CHR 0xC2, CHR 0x85], [CHR 0xC2, CHR 0xA0], [CHR 0xE1, CHR 0x9A, CHR 0x80],
      [CHR 0xE2, CHR 0x80, CHR 0x80], [CHR 0xE2, CHR 0x80, CHR 0x81],
      [CHR 0xE2, CHR 0x80, CHR 0x82], [CHR 0xE2, CHR 0x80, CHR 0x83],
      [CHR 0xE2, CHR 0x80, CHR 0x84], [CHR 0xE2, CHR 0x80, CHR 0x85],
      [CHR 0xE2, CHR 0x80, CHR 0x86], [CHR 0xE2, CHR 0x80, CHR 0x87],
      [CHR 0xE2, CHR 0x80, CHR 0x88], [CHR 0xE2, CHR 0x80, CHR 0x89],
      [CHR 0xE2, CHR 0x80, CHR 0x8A], [CHR 0xE2, CHR 0x80, CHR 0xA8],
      [CHR 0xE2, CHR 0x80, CHR 0xA9], [CHR 0xE2, CHR 0x80, CHR 0xAF],
      [CHR 0xE2, CHR 0x81, CHR 0x9F], [CHR 0xE3, CHR 0x80, CHR 0x80]]"

lemma whiteSpace_nonempty: "w \<in> set whiteSpace \<Longrightarrow> w \<noteq> []"
  by (auto simp: whiteSpace_def)

function TrimLeft :: "string \<Rightarrow> string" where
  "TrimLeft s =
     (case find (\<lambda>w. prefix w s) whiteSpace of
        None \<Rightarrow> s
      | Some w \<Rightarrow> TrimLeft (drop (length w) s))"
  by pat_completeness auto
termination
proof (relation "measure length")
  show "wf (measure length)" by simp
next
  fix s w
  assume "find (\<lambda>w. prefix w s) whiteSpace = Some w"
  then have "w \<in> set whiteSpace" and "prefix w s"
    by (auto simp: find_Some_iff)
  then have "w \<noteq> []" and "length w \<le> length s"
    by (auto simp: whiteSpace_nonempty prefix_length_le)
  then show "(drop (length w) s, s) \<in> measure length"
    by (cases w) auto
qed

declare TrimLeft.simps [simp del]

function TrimRight :: "string \<Rightarrow> string" where
  "TrimRight s =
     (case find (\<lambda>w. suffix w s) whiteSpace of
        None \<Rightarrow> s
      | Some w \<Rightarrow> TrimRight (take (length s - length w) s))"
  by pat_completeness auto
termination
proof (relation "measure length")
  show "wf (measure length)" by simp
next
  fix s w
  assume "find (\<lambda>w. suffix w s) whiteSpace = Some w"
  then have "w \<in> set whiteSpace" and "suffix w s"
    by (auto simp: find_Some_iff)
  then have "w \<noteq> []" and "length w \<le> length s"
    by (auto simp: whiteSpace_nonempty suffix_length_le)
  then show "(take (length s - length w) s, s) \<in> measure length"
    by (cases w) auto
qed

declare TrimRight.simps [simp del]

definition TrimSpace :: "string \<Rightarrow> string" where
  "TrimSpace s = TrimRight (TrimLeft s)"

definition HasPrefix :: "string \<Rightarrow> string \<Rightarrow> bool" where
  "HasPrefix s p = prefix p s"

subsection \<open>strings.Index and strings.Count\<close>

text \<open>
  \<open>Index s substr\<close> is the position of the first instance of \<open>substr\<close> in \<open>s\<close>;
  \<open>None\<close> stands for Go's result \<open>-1\<close> (no instance).
\<close>

primrec Index :: "string \<Rightarrow> string \<Rightarrow> nat option" where
  "Index [] substr = (if substr = [] then Some 0 else None)"
| "Index (c # t) substr =
     (if prefix substr (c # t) then Some 0 else map_option Suc (Index t substr))"

lemma Index_Some_bound: "Index s substr = Some i \<Longrightarrow> i + length substr \<le> length s"
proof (induction s arbitrary: i)
  case Nil
  then show ?case by (simp split: if_splits)
next
  case (Cons c t)
  show ?case
  proof (cases "prefix substr (c # t)")
    case True
    with Cons.prems show ?thesis by (auto dest: prefix_length_le)
  next
    case False
    with Cons.prems obtain j where "Index t substr = Some j" and "i = Suc j"
      by auto
    with Cons.IH show ?thesis by auto
  qed
qed

subsection \<open>utf8.DecodeRuneInString and utf8.RuneCountInString\<close>

text \<open>
  \<open>runeSize s\<close> is the width in bytes that \<open>utf8.DecodeRuneInString\<close> reports for the
  first rune of \<open>s\<close>: the length of a well-formed UTF-8 sequence, and 1 for a byte that
  starts none.
\<close>

definition inRange :: "nat \<Rightarrow> nat \<Rightarrow> char \<Rightarrow> bool" where
  "inRange lo hi c = (lo \<le> of_char c \<and> (of_char c :: nat) \<le> hi)"

definition runeSize :: "string \<Rightarrow> nat" where
  "runeSize s =
     (case s of
        [] \<Rightarrow> 0
      | s0 # r \<Rightarrow>
          let b = (of_char s0 :: nat) in
          if b < 0xC2 \<or> 0xF4 < b then 1
          else
            let sz = (if b < 0xE0 then 2 else if b < 0xF0 then 3 else 4 :: nat);
                lo = (if b = 0xE0 then 0xA0 else if b = 0xF0 then 0x90 else 0x80 :: nat);
                hi = (if b = 0xED then 0x9F else if b = 0xF4 then 0x8F else 0xBF :: nat)
            in if length s < sz then 1
               else if \<not> inRange lo hi (s ! 1) then 1
               else if sz \<le> 2 then 2
               else if \<not> inRange 0x80 0xBF (s ! 2) then 1
               else if sz \<le> 3 then 3
               else if \<not> inRange 0x80 0xBF (s ! 3) then 1
               else 4)"

lemma runeSize_pos: "s \<noteq> [] \<Longrightarrow> 0 < runeSize s"
  by (cases s) (auto simp: runeSize_def Let_def)

function RuneCountInString :: "string \<Rightarrow> nat" where
  "RuneCountInString s =
     (if s = [] then 0 else Suc (RuneCountInString (drop (runeSize s) s)))"
  by pat_completeness auto
termination
  by (relation "measure length") (auto simp: runeSize_pos)

declare RuneCountInString.simps [simp del]

function Count :: "string \<Rightarrow> string \<Rightarrow> nat" where
  "Count s substr =
     (if substr = [] then RuneCountInString s + 1
      else case Index s substr of
             None \<Rightarrow> 0
           | Some i \<Rightarrow> Suc (Count (drop (i + length substr) s) substr))"
  by pat_completeness auto
termination
proof (relation "measure (\<lambda>(s, substr). length s)")
  show "wf (measure (\<lambda>(s, substr). length s))" by simp
next
  fix s substr :: string and i
  assume "substr \<noteq> []" and "Index s substr = Some i"
  then have "0 < length substr" and "i + length substr \<le> length s"
    by (auto dest: Index_Some_bound)
  then have "length s - (i + length substr) < length s"
    by arith
  then show "((drop (i + length substr) s, substr), (s, substr))
               \<in> measure (\<lambda>(s, substr). length s)"
    by simp
qed

declare Count.simps [simp del]

subsection \<open>strings.Split and strings.SplitN\<close>

text \<open>
  \<open>explode s n\<close> splits \<open>s\<close> into its UTF-8 sequences, at most \<open>n\<close> of them (all of
  them when \<open>n\<close> is negative); the last piece holds the rest of the string, and a byte
  that is not part of a well-formed sequence is a piece of its own.
\<close>

primrec explodeLoop :: "nat \<Rightarrow> string \<Rightarrow> string list" where
  "explodeLoop 0 s = [s]"
| "explodeLoop (Suc k) s = take (runeSize s) s # explodeLoop k (drop (runeSize s) s)"

definition explode :: "string \<Rightarrow> int \<Rightarrow> string list" where
  "explode s n =
     (let l = int (RuneCountInString s);
          n' = (if n < 0 \<or> l < n then l else n)
      in if 0 < n' then explodeLoop (nat (n' - 1)) s else [])"

text \<open>
  The loop of \<open>genSplit\<close>: \<open>k\<close> is the number of pieces still to cut off before the
  rest of the string becomes the last piece.
\<close>

primrec splitLoop :: "nat \<Rightarrow> string \<Rightarrow> string \<Rightarrow> nat \<Rightarrow> string list" where
  "splitLoop 0 s sep sepSave = [s]"
| "splitLoop (Suc k) s sep sepSave =
     (case Index s sep of
        None \<Rightarrow> [s]
      | Some m \<Rightarrow> take (m + sepSave) s # splitLoop k (drop (m + length sep) s) sep sepSave)"

definition genSplit :: "string \<Rightarrow> string \<Rightarrow> nat \<Rightarrow> int \<Rightarrow> string list" where
  "genSplit s sep sepSave n =
     (if n = 0 then []
      else if sep = [] then explode s n
      else
        let n1 = (if n < 0 then int (Count s sep) + 1 else n);
            n2 = (if int (length s) + 1 < n1 then int (length s) + 1 else n1)
        in splitLoop (nat (n2 - 1)) s sep sepSave)"

definition Split :: "string \<Rightarrow> string \<Rightarrow> string list" where
  "Split s sep = genSplit s sep 0 (- 1)"

definition SplitN :: "string \<Rightarrow> string \<Rightarrow> int \<Rightarrow> string list" where
  "SplitN s sep n = genSplit s sep 0 n"

subsection \<open>strconv.ParseBool and the parsers taken as parameters\<close>

text \<open>
  \<open>Atoi\<close>, \<open>ParseFloat\<close> and \<open>ParseDuration\<close> return \<open>Inr\<close> the parsed value, or
  \<open>Inl\<close> the text of the error (what the verb \<open>%v\<close> prints for it). \<open>'f\<close> is the type of
  Go's \<open>float64\<close> and \<open>'d\<close> that of \<open>time.Duration\<close>; Go's \<open>int\<close> is read as a
  mathematical integer.
\<close>

record ('f, 'd) stdlib =
  Atoi :: "string \<Rightarrow> string + int"
  ParseFloat :: "string \<Rightarrow> nat \<Rightarrow> string + 'f"
  ParseDuration :: "string \<Rightarrow> string + 'd"
  Quote :: "string \<Rightarrow> string"

text \<open>
  \<open>ParseBool\<close> accepts twelve spellings and rejects every other string with the syntax
  error of package \<open>strconv\<close>, whose text is
  \<open>strconv.ParseBool: parsing "<str>": invalid syntax\<close>, the string quoted by \<open>Quote\<close>.
\<close>

definition ParseBool :: "('f, 'd) stdlib \<Rightarrow> string \<Rightarrow> string + bool" where
  "ParseBool L str =
     (if str \<in> set [''1'', ''t'', ''T'', ''true'', ''TRUE'', ''True''] then Inr True
      else if str \<in> set [''0'', ''f'', ''F'', ''false'', ''FALSE'', ''False''] then Inr False
      else Inl (''strconv.ParseBool: parsing '' @ Quote L str @ '': invalid syntax''))"

section \<open>The state of the package and of the process\<close>

text \<open>
  \<open>environ\<close> is the environment of the process, which \<open>os.LookupEnv\<close> reads, and
  \<open>envMap\<close> is the package variable of that name: the values loaded from the \<open>*.env\<close>
  files. \<open>envMap\<close> starts empty (\<open>make(map[string]string)\<close>).
\<close>

record state =
  environ :: "string \<rightharpoonup> string"
  envMap :: "string \<rightharpoonup> string"

definition LookupEnv :: "state \<Rightarrow> string \<Rightarrow> string option" where
  "LookupEnv st key = environ st key"

definition start :: "(string \<rightharpoonup> string) \<Rightarrow> state" where
  "start env = \<lparr>environ = env, envMap = Map.empty\<rparr>"

section \<open>init: loading the .env files\<close>

text \<open>
  What \<open>init\<close> asks of the operating system: the path of the executable
  (\<open>os.Executable\<close>), \<open>filepath.Dir\<close>, \<open>filepath.Join\<close>, \<open>filepath.Glob\<close>, and the
  lines that a \<open>bufio.Scanner\<close> yields for a file (\<open>None\<close> when \<open>os.Open\<close> fails).
  \<open>None\<close> is the error result of a call.
\<close>

record host =
  Executable :: "string option"
  Dir :: "string \<Rightarrow> string"
  Join :: "string list \<Rightarrow> string"
  Glob :: "string \<Rightarrow> string list option"
  ScanLines :: "string \<Rightarrow> string list option"

text \<open>The body of the inner loop: one line of a file.\<close>

definition loadLine :: "state \<Rightarrow> string \<Rightarrow> state" where
  "loadLine st text =
     (let line = TrimSpace text in
      if line = [] \<or> HasPrefix line ''#'' then st
      else
        let kv = SplitN line ''='' 2 in
        if length kv \<noteq> 2 then st
        else
          let key = TrimSpace (kv ! 0);
              val = TrimSpace (kv ! 1)
          in case LookupEnv st key of
               None \<Rightarrow> st\<lparr>envMap := (envMap st)(key \<mapsto> val)\<rparr>
             | Some _ \<Rightarrow> st)"

text \<open>The body of the outer loop: one file; a file that cannot be opened is passed over.\<close>

definition loadFile :: "host \<Rightarrow> state \<Rightarrow> string \<Rightarrow> state" where
  "loadFile H st file =
     (case ScanLines H file of
        None \<Rightarrow> st
      | Some lines \<Rightarrow> foldl loadLine st lines)"

definition init :: "host \<Rightarrow> state \<Rightarrow> state" where
  "init H st =
     (case Executable H of
        None \<Rightarrow> st
      | Some exePath \<Rightarrow>
          let dir = Dir H exePath in
          case Glob H (Join H [dir, ''*.env'']) of
            None \<Rightarrow> st
          | Some files \<Rightarrow> foldl (loadFile H) st files)"

section \<open>The accessors\<close>

text \<open>
  A panic ends the call with its message: an accessor that can panic returns
  \<open>Inl\<close> the message or \<open>Inr\<close> its value.
\<close>

type_synonym panic = string

definition GetEnvString :: "state \<Rightarrow> string \<Rightarrow> string \<Rightarrow> string" where
  "GetEnvString st key defaultValue =
     (case LookupEnv st key of
        Some val \<Rightarrow> val
      | None \<Rightarrow>
          (case envMap st key of
             Some val \<Rightarrow> val
           | None \<Rightarrow> defaultValue))"

definition GetEnvArrayString :: "state \<Rightarrow> string \<Rightarrow> string \<Rightarrow> string list \<Rightarrow> string list" where
  "GetEnvArrayString st key split defaultValue =
     (let val = GetEnvString st key '''' in
      if val \<noteq> '''' then Split val split else defaultValue)"

definition GetEnvInt :: "('f, 'd) stdlib \<Rightarrow> state \<Rightarrow> string \<Rightarrow> int \<Rightarrow> panic + int" where
  "GetEnvInt L st key defaultValue =
     (let val = GetEnvString st key '''' in
      if val \<noteq> '''' then
        (case Atoi L val of
           Inl err \<Rightarrow>
             Inl (''Environment variable '' @ key @ '' is not a valid integer: '' @ err)
         | Inr intValue \<Rightarrow> Inr intValue)
      else Inr defaultValue)"

definition GetEnvDuration :: "('f, 'd) stdlib \<Rightarrow> state \<Rightarrow> string \<Rightarrow> 'd \<Rightarrow> panic + 'd" where
  "GetEnvDuration L st key defaultValue =
     (let val = GetEnvString st key '''' in
      if val \<noteq> '''' then
        (case ParseDuration L val of
           Inl err \<Rightarrow>
             Inl (''Environment variable '' @ key @ '' is not a valid duration: '' @ err)
         | Inr durationValue \<Rightarrow> Inr durationValue)
      else Inr defaultValue)"

definition GetEnvBool :: "('f, 'd) stdlib \<Rightarrow> state \<Rightarrow> string \<Rightarrow> bool \<Rightarrow> panic + bool" where
  "GetEnvBool L st key defaultValue =
     (let val = GetEnvString st key '''' in
      if val \<noteq> '''' then
        (case ParseBool L val of
           Inl err \<Rightarrow>
             Inl (''Environment variable '' @ key @ '' is not a valid boolean: '' @ err)
         | Inr boolValue \<Rightarrow> Inr boolValue)
      else Inr defaultValue)"

definition GetEnvFloat64 :: "('f, 'd) stdlib \<Rightarrow> state \<Rightarrow> string \<Rightarrow> 'f \<Rightarrow> panic + 'f" where
  "GetEnvFloat64 L st key defaultValue =
     (let val = GetEnvString st key '''' in
      if val \<noteq> '''' then
        (case ParseFloat L val 64 of
           Inl err \<Rightarrow>
             Inl (''Environment variable '' @ key @ '' is not a valid float64: '' @ err)
         | Inr floatValue \<Rightarrow> Inr floatValue)
      else Inr defaultValue)"

text \<open>
  The loops over the split elements. The last argument is the slice (or the map) built
  so far; a panic leaves the loop with the message and drops what was built.
\<close>

fun intLoop ::
  "('f, 'd) stdlib \<Rightarrow> string \<Rightarrow> string list \<Rightarrow> int list \<Rightarrow> panic + int list" where
  "intLoop L key [] intValues = Inr intValues"
| "intLoop L key (str # rest) intValues =
     (case Atoi L str of
        Inl err \<Rightarrow>
          Inl (''Environment variable '' @ key @ '' array contains an invalid integer: '' @ str)
      | Inr intValue \<Rightarrow> intLoop L key rest (intValues @ [intValue]))"

definition GetEnvArrayInt ::
  "('f, 'd) stdlib \<Rightarrow> state \<Rightarrow> string \<Rightarrow> string \<Rightarrow> int list \<Rightarrow> panic + int list" where
  "GetEnvArrayInt L st key split defaultValue =
     (let val = GetEnvString st key '''' in
      if val \<noteq> '''' then intLoop L key (Split val split) []
      else Inr defaultValue)"

fun durationLoop ::
  "('f, 'd) stdlib \<Rightarrow> string \<Rightarrow> string list \<Rightarrow> 'd list \<Rightarrow> panic + 'd list" where
  "durationLoop L key [] durationValues = Inr durationValues"
| "durationLoop L key (str # rest) durationValues =
     (case ParseDuration L str of
        Inl err \<Rightarrow>
          Inl (''Environment variable '' @ key @ '' array contains an invalid duration: '' @ str)
      | Inr durationValue \<Rightarrow> durationLoop L key rest (durationValues @ [durationValue]))"

definition GetEnvArrayDuration ::
  "('f, 'd) stdlib \<Rightarrow> state \<Rightarrow> string \<Rightarrow> string \<Rightarrow> 'd list \<Rightarrow> panic + 'd list" where
  "GetEnvArrayDuration L st key split defaultValue =
     (let val = GetEnvString st key '''' in
      if val \<noteq> '''' then durationLoop L key (Split val split) []
      else Inr defaultValue)"

fun entryLoop ::
  "string \<Rightarrow> string \<Rightarrow> string list \<Rightarrow> (string \<rightharpoonup> string) \<Rightarrow> panic + (string \<rightharpoonup> string)" where
  "entryLoop key kvDelimiter [] result = Inr result"
| "entryLoop key kvDelimiter (entry # rest) result =
     (let kv = SplitN entry kvDelimiter 2 in
      if length kv \<noteq> 2 then
        Inl (''Environment variable '' @ key @ '' contains invalid map entry: '' @ entry)
      else entryLoop key kvDelimiter rest (result(TrimSpace (kv ! 0) \<mapsto> TrimSpace (kv ! 1))))"

definition GetEnvMapStringString ::
  "state \<Rightarrow> string \<Rightarrow> string \<Rightarrow> string \<Rightarrow> (string \<rightharpoonup> string) \<Rightarrow> panic + (string \<rightharpoonup> string)" where
  "GetEnvMapStringString st key entryDelimiter kvDelimiter defaultValue =
     (let val = GetEnvString st key '''' in
      if val \<noteq> '''' then entryLoop key kvDelimiter (Split val entryDelimiter) Map.empty
      else Inr defaultValue)"

section \<open>Calls of the package, and runs of them\<close>

text \<open>
  The nine accessors as one type of calls, so that a statement can speak of every
  accessor: a call names the accessor and carries its arguments, and \<open>answer\<close> is what
  the accessor returns (or the panic) in a state.
\<close>

datatype ('f, 'd) call =
    CallString string string
  | CallArrayString string string "string list"
  | CallInt string int
  | CallDuration string 'd
  | CallBool string bool
  | CallFloat64 string 'f
  | CallArrayInt string string "int list"
  | CallArrayDuration string string "'d list"
  | CallMapStringString string string string "string \<rightharpoonup> string"

datatype ('f, 'd) val =
    VString string
  | VArrayString "string list"
  | VInt int
  | VDuration 'd
  | VBool bool
  | VFloat64 'f
  | VArrayInt "int list"
  | VArrayDuration "'d list"
  | VMapStringString "string \<rightharpoonup> string"

fun answer :: "('f, 'd) stdlib \<Rightarrow> state \<Rightarrow> ('f, 'd) call \<Rightarrow> panic + ('f, 'd) val" where
  "answer L st (CallString key d) = Inr (VString (GetEnvString st key d))"
| "answer L st (CallArrayString key split d) =
     Inr (VArrayString (GetEnvArrayString st key split d))"
| "answer L st (CallInt key d) = map_sum id VInt (GetEnvInt L st key d)"
| "answer L st (CallDuration key d) = map_sum id VDuration (GetEnvDuration L st key d)"
| "answer L st (CallBool key d) = map_sum id VBool (GetEnvBool L st key d)"
| "answer L st (CallFloat64 key d) = map_sum id VFloat64 (GetEnvFloat64 L st key d)"
| "answer L st (CallArrayInt key split d) =
     map_sum id VArrayInt (GetEnvArrayInt L st key split d)"
| "answer L st (CallArrayDuration key split d) =
     map_sum id VArrayDuration (GetEnvArrayDuration L st key split d)"
| "answer L st (CallMapStringString key entryDelimiter kvDelimiter d) =
     map_sum id VMapStringString (GetEnvMapStringString st key entryDelimiter kvDelimiter d)"

fun keyOf :: "('f, 'd) call \<Rightarrow> string" where
  "keyOf (CallString key d) = key"
| "keyOf (CallArrayString key split d) = key"
| "keyOf (CallInt key d) = key"
| "keyOf (CallDuration key d) = key"
| "keyOf (CallBool key d) = key"
| "keyOf (CallFloat64 key d) = key"
| "keyOf (CallArrayInt key split d) = key"
| "keyOf (CallArrayDuration key split d) = key"
| "keyOf (CallMapStringString key entryDelimiter kvDelimiter d) = key"

fun defaultOf :: "('f, 'd) call \<Rightarrow> ('f, 'd) val" where
  "defaultOf (CallString key d) = VString d"
| "defaultOf (CallArrayString key split d) = VArrayString d"
| "defaultOf (CallInt key d) = VInt d"
| "defaultOf (CallDuration key d) = VDuration d"
| "defaultOf (CallBool key d) = VBool d"
| "defaultOf (CallFloat64 key d) = VFloat64 d"
| "defaultOf (CallArrayInt key split d) = VArrayInt d"
| "defaultOf (CallArrayDuration key split d) = VArrayDuration d"
| "defaultOf (CallMapStringString key entryDelimiter kvDelimiter d) = VMapStringString d"

fun plainString :: "('f, 'd) call \<Rightarrow> bool" where
  "plainString (CallString key d) = True"
| "plainString c = False"

text \<open>
  An operation of the library is the scan of \<open>init\<close> or a call of an accessor. \<open>run\<close>
  performs a list of them from a state and returns the state it ends in with the
  answers of the calls, in order; a panic ends the process, so the run stops there.
  The accessors assign to no variable, so a call hands the state on as it found it.
\<close>

datatype ('f, 'd) operation = Scan host | Access "('f, 'd) call"

fun run ::
  "('f, 'd) stdlib \<Rightarrow> state \<Rightarrow> ('f, 'd) operation list
     \<Rightarrow> state \<times> (panic + ('f, 'd) val) list" where
  "run L st [] = (st, [])"
| "run L st (Scan H # ops) = run L (init H st) ops"
| "run L st (Access c # ops) =
     (case answer L st c of
        Inl p \<Rightarrow> (st, [Inl p])
      | Inr v \<Rightarrow> (case run L st ops of (st', rs) \<Rightarrow> (st', Inr v # rs)))"

section \<open>The accessors as steps on the state\<close>

text \<open>
  What a call leaves behind. The accessors are written here once more with the state
  passed through them: each function takes the state in which it is called and returns
  its result with the state after the call. The two reads that \<open>GetEnvString\<close> makes are
  the primitive steps: \<open>os.LookupEnv\<close> reads the process environment and the index
  expression \<open>envMap[key]\<close> reads the package variable; neither assigns. The other
  accessors call \<open>GetEnvString\<close> and go on in the state it returns; their parsing and
  their loops work on local variables only. The only assignment to package state in
  \<open>env.go\<close> is \<open>envMap[key] = val\<close> in \<open>init\<close>.
\<close>

definition readEnviron :: "string \<Rightarrow> state \<Rightarrow> string option \<times> state" where
  "readEnviron key st = (LookupEnv st key, st)"

definition readEnvMap :: "string \<Rightarrow> state \<Rightarrow> string option \<times> state" where
  "readEnvMap key st = (envMap st key, st)"

definition GetEnvString_step :: "string \<Rightarrow> string \<Rightarrow> state \<Rightarrow> string \<times> state" where
  "GetEnvString_step key defaultValue st =
     (case readEnviron key st of
        (Some val, st1) \<Rightarrow> (val, st1)
      | (None, st1) \<Rightarrow>
          (case readEnvMap key st1 of
             (Some val, st2) \<Rightarrow> (val, st2)
           | (None, st2) \<Rightarrow> (defaultValue, st2)))"

definition GetEnvArrayString_step ::
  "string \<Rightarrow> string \<Rightarrow> string list \<Rightarrow> state \<Rightarrow> string list \<times> state" where
  "GetEnvArrayString_step key split defaultValue st =
     (case GetEnvString_step key '''' st of
        (val, st1) \<Rightarrow> (if val \<noteq> '''' then Split val split else defaultValue, st1))"

definition GetEnvInt_step ::
  "('f, 'd) stdlib \<Rightarrow> string \<Rightarrow> int \<Rightarrow> state \<Rightarrow> (panic + int) \<times> state" where
  "GetEnvInt_step L key defaultValue st =
     (case GetEnvString_step key '''' st of
        (val, st1) \<Rightarrow>
          if val \<noteq> '''' then
            (case Atoi L val of
               Inl err \<Rightarrow>
                 (Inl (''Environment variable '' @ key @ '' is not a valid integer: '' @ err), st1)
             | Inr intValue \<Rightarrow> (Inr intValue, st1))
          else (Inr defaultValue, st1))"

definition GetEnvDuration_step ::
  "('f, 'd) stdlib \<Rightarrow> string \<Rightarrow> 'd \<Rightarrow> state \<Rightarrow> (panic + 'd) \<times> state" where
  "GetEnvDuration_step L key defaultValue st =
     (case GetEnvString_step key '''' st of
        (val, st1) \<Rightarrow>
          if val \<noteq> '''' then
            (case ParseDuration L val of
               Inl err \<Rightarrow>
                 (Inl (''Environment variable '' @ key @ '' is not a valid duration: '' @ err), st1)
             | Inr durationValue \<Rightarrow> (Inr durationValue, st1))
          else (Inr defaultValue, st1))"

definition GetEnvBool_step ::
  "('f, 'd) stdlib \<Rightarrow> string \<Rightarrow> bool \<Rightarrow> state \<Rightarrow> (panic + bool) \<times> state" where
  "GetEnvBool_step L key defaultValue st =
     (case GetEnvString_step key '''' st of
        (val, st1) \<Rightarrow>
          if val \<noteq> '''' then
            (case ParseBool L val of
               Inl err \<Rightarrow>
                 (Inl (''Environment variable '' @ key @ '' is not a valid boolean: '' @ err), st1)
             | Inr boolValue \<Rightarrow> (Inr boolValue, st1))
          else (Inr defaultValue, st1))"

definition GetEnvFloat64_step ::
  "('f, 'd) stdlib \<Rightarrow> string \<Rightarrow> 'f \<Rightarrow> state \<Rightarrow> (panic + 'f) \<times> state" where
  "GetEnvFloat64_step L key defaultValue st =
     (case GetEnvString_step key '''' st of
        (val, st1) \<Rightarrow>
          if val \<noteq> '''' then
            (case ParseFloat L val 64 of
               Inl err \<Rightarrow>
                 (Inl (''Environment variable '' @ key @ '' is not a valid float64: '' @ err), st1)
             | Inr floatValue \<Rightarrow> (Inr floatValue, st1))
          else (Inr defaultValue, st1))"

definition GetEnvArrayInt_step ::
  "('f, 'd) stdlib \<Rightarrow> string \<Rightarrow> string \<Rightarrow> int list \<Rightarrow> state
     \<Rightarrow> (panic + int list) \<times> state" where
  "GetEnvArrayInt_step L key split defaultValue st =
     (case GetEnvString_step key '''' st of
        (val, st1) \<Rightarrow>
          if val \<noteq> '''' then (intLoop L key (Split val split) [], st1)
          else (Inr defaultValue, st1))"

definition GetEnvArrayDuration_step ::
  "('f, 'd) stdlib \<Rightarrow> string \<Rightarrow> string \<Rightarrow> 'd list \<Rightarrow> state
     \<Rightarrow> (panic + 'd list) \<times> state" where
  "GetEnvArrayDuration_step L key split defaultValue st =
     (case GetEnvString_step key '''' st of
        (val, st1) \<Rightarrow>
          if val \<noteq> '''' then (durationLoop L key (Split val split) [], st1)
          else (Inr defaultValue, st1))"

definition GetEnvMapStringString_step ::
  "string \<Rightarrow> string \<Rightarrow> string \<Rightarrow> (string \<rightharpoonup> string) \<Rightarrow> state
     \<Rightarrow> (panic + (string \<rightharpoonup> string)) \<times> state" where
  "GetEnvMapStringString_step key entryDelimiter kvDelimiter defaultValue st =
     (case GetEnvString_step key '''' st of
        (val, st1) \<Rightarrow>
          if val \<noteq> '''' then
            (entryLoop key kvDelimiter (Split val entryDelimiter) Map.empty, st1)
          else (Inr defaultValue, st1))"

text \<open>
  \<open>perform\<close> makes a call in a state: the answer (or the panic) and the state after it.
  \<open>stateAfter\<close> is the state that a list of calls, made one after the other, leaves.
\<close>

fun perform ::
  "('f, 'd) stdlib \<Rightarrow> ('f, 'd) call \<Rightarrow> state \<Rightarrow> (panic + ('f, 'd) val) \<times> state" where
  "perform L (CallString key d) st =
     (case GetEnvString_step key d st of (r, st1) \<Rightarrow> (Inr (VString r), st1))"
| "perform L (CallArrayString key split d) st =
     (case GetEnvArrayString_step key split d st of (r, st1) \<Rightarrow> (Inr (VArrayString r), st1))"
| "perform L (CallInt key d) st =
     (case GetEnvInt_step L key d st of (r, st1) \<Rightarrow> (map_sum id VInt r, st1))"
| "perform L (CallDuration key d) st =
     (case GetEnvDuration_step L key d st of (r, st1) \<Rightarrow> (map_sum id VDuration r, st1))"
| "perform L (CallBool key d) st =
     (case GetEnvBool_step L key d st of (r, st1) \<Rightarrow> (map_sum id VBool r, st1))"
| "perform L (CallFloat64 key d) st =
     (case GetEnvFloat64_step L key d st of (r, st1) \<Rightarrow> (map_sum id VFloat64 r, st1))"
| "perform L (CallArrayInt key split d) st =
     (case GetEnvArrayInt_step L key split d st of (r, st1) \<Rightarrow> (map_sum id VArrayInt r, st1))"
| "perform L (CallArrayDuration key split d) st =
     (case GetEnvArrayDuration_step L key split d st of
        (r, st1) \<Rightarrow> (map_sum id VArrayDuration r, st1))"
| "perform L (CallMapStringString key entryDelimiter kvDelimiter d) st =
     (case GetEnvMapStringString_step key entryDelimiter kvDelimiter d st of
        (r, st1) \<Rightarrow> (map_sum id VMapStringString r, st1))"

fun stateAfter :: "('f, 'd) stdlib \<Rightarrow> ('f, 'd) call list \<Rightarrow> state \<Rightarrow> state" where
  "stateAfter L [] st = st"
| "stateAfter L (c # cs) st = stateAfter L cs (snd (perform L c st))"

section \<open>An instance of the library parameters\<close>

text \<open>
  To evaluate the accessors on concrete inputs the parameters need values. \<open>exampleLib\<close>
  agrees with Go's library on the strings used in the examples below: \<open>Atoi\<close> reads an
  unsigned decimal numeral of at most 18 digits, \<open>ParseFloat\<close> the text \<open>123.456\<close>,
  \<open>ParseDuration\<close> the texts \<open>1m\<close>, \<open>2m\<close> and \<open>3m\<close> (in nanoseconds), and \<open>Quote\<close>
  encloses a printable ASCII string without quotes or backslashes in double quotes.
\<close>

definition isDigit :: "char \<Rightarrow> bool" where
  "isDigit c = (48 \<le> (of_char c :: nat) \<and> (of_char c :: nat) \<le> 57)"

definition decimal :: "string \<Rightarrow> int" where
  "decimal s = foldl (\<lambda>n c. 10 * n + (of_char c - 48)) 0 s"

definition exampleAtoi :: "string \<Rightarrow> string + int" where
  "exampleAtoi s =
     (if s \<noteq> [] \<and> length s < 19 \<and> list_all isDigit s then Inr (decimal s)
      else Inl (''strconv.Atoi: parsing '' @ [CHR 0x22] @ s @ [CHR 0x22] @ '': invalid syntax''))"

definition exampleParseFloat :: "string \<Rightarrow> nat \<Rightarrow> string + real" where
  "exampleParseFloat s bitSize =
     (if s = ''123.456'' then Inr (123456 / 1000)
      else Inl (''strconv.ParseFloat: parsing '' @ [CHR 0x22] @ s @ [CHR 0x22] @ '': invalid syntax''))"

definition exampleParseDuration :: "string \<Rightarrow> string + int" where
  "exampleParseDuration s =
     (if s = ''1m'' then Inr 60000000000
      else if s = ''2m'' then Inr 120000000000
      else if s = ''3m'' then Inr 180000000000
      else Inl (''time: invalid duration '' @ [CHR 0x22] @ s @ [CHR 0x22]))"

definition exampleQuote :: "string \<Rightarrow> string" where
  "exampleQuote s = [CHR 0x22] @ s @ [CHR 0x22]"

definition exampleLib :: "(real, int) stdlib" where
  "exampleLib =
     \<lparr>Atoi = exampleAtoi, ParseFloat = exampleParseFloat,
      ParseDuration = exampleParseDuration, Quote = exampleQuote\<rparr>"

text \<open>
  And an instance of the operating system: the binary \<open>/app/server\<close> with two files
  \<open>a.env\<close> and \<open>b.env\<close> beside it, and a third that cannot be opened.
\<close>

definition exampleGlob :: "string \<Rightarrow> string list option" where
  "exampleGlob pattern =
     (if pattern = ''/app/*.env'' then Some [''/app/a.env'', ''/app/locked.env'', ''/app/b.env'']
      else Some [])"

definition exampleScanLines :: "string \<Rightarrow> string list option" where
  "exampleScanLines file =
     (if file = ''/app/a.env''
      then Some [''# settings'', '' PORT = 8080 '', ''HOME=/tmp'', ''novalue'', '''', ''NAME=first'']
      else if file = ''/app/b.env'' then Some [''NAME=second=x'']
      else None)"

definition exampleDir :: "string \<Rightarrow> string" where
  "exampleDir path = (if path = ''/app/server'' then ''/app'' else ''.'')"

definition exampleJoin :: "string list \<Rightarrow> string" where
  "exampleJoin elems = (if elems = [''/app'', ''*.env''] then ''/app/*.env'' else concat elems)"

definition exampleHost :: host where
  "exampleHost =
     \<lparr>Executable = Some ''/app/server'', Dir = exampleDir, Join = exampleJoin,
      Glob = exampleGlob, ScanLines = exampleScanLines\<rparr>"

section \<open>Notions used to state the claims\<close>

text \<open>
  \<open>joinWith sep pieces\<close> writes the pieces one after the other with \<open>sep\<close> between
  them; it states what it is to split a string on a delimiter.
\<close>

fun joinWith :: "string \<Rightarrow> string list \<Rightarrow> string" where
  "joinWith sep [] = []"
| "joinWith sep [x] = x"
| "joinWith sep (x # y # ys) = x @ sep @ joinWith sep (y # ys)"

text \<open>
  The overlay as the specification describes it. \<open>discovered\<close> are the files that the
  scan finds (none when the executable's path or the directory listing is not to be had)
  and \<open>linesOf\<close> the lines of a file (none for a file that cannot be opened).
  \<open>specPair\<close> reads a line: the line is trimmed; an empty line, a line that starts with
  \<open>#\<close> and a line without \<open>=\<close> give nothing; any other line gives the text before
  the first \<open>=\<close> as the key and the text after it as the value, each trimmed.
  \<open>specInsert\<close> enters the pair unless the process environment defines the key, and
  does not look at what the overlay holds.
\<close>

definition discovered :: "host \<Rightarrow> string list" where
  "discovered H =
     (case Executable H of
        None \<Rightarrow> []
      | Some exePath \<Rightarrow>
          (case Glob H (Join H [Dir H exePath, ''*.env'']) of
             None \<Rightarrow> []
           | Some files \<Rightarrow> files))"

definition linesOf :: "host \<Rightarrow> string \<Rightarrow> string list" where
  "linesOf H file = (case ScanLines H file of None \<Rightarrow> [] | Some lines \<Rightarrow> lines)"

definition specPair :: "string \<Rightarrow> (string \<times> string) option" where
  "specPair text =
     (let line = TrimSpace text in
      if line = [] then None
      else if hd line = CHR ''#'' then None
      else if CHR ''='' \<notin> set line then None
      else Some (TrimSpace (takeWhile (\<lambda>c. c \<noteq> CHR ''='') line),
                 TrimSpace (tl (dropWhile (\<lambda>c. c \<noteq> CHR ''='') line))))"

definition specInsert ::
  "(string \<rightharpoonup> string) \<Rightarrow> (string \<rightharpoonup> string) \<Rightarrow> string \<Rightarrow> (string \<rightharpoonup> string)" where
  "specInsert env overlay text =
     (case specPair text of
        None \<Rightarrow> overlay
      | Some (key, val) \<Rightarrow> if key \<in> dom env then overlay else overlay(key \<mapsto> val))"

definition specOverlay :: "(string \<rightharpoonup> string) \<Rightarrow> host \<Rightarrow> (string \<rightharpoonup> string)" where
  "specOverlay env H =
     foldl (specInsert env) Map.empty (concat (map (linesOf H) (discovered H)))"

section \<open>Lemmas on the accessors\<close>

lemmas example_defs =
  exampleLib_def exampleAtoi_def exampleParseFloat_def exampleParseDuration_def
  exampleQuote_def isDigit_def decimal_def


lemma GetEnvString_environ:
  "environ st key = Some v \<Longrightarrow> GetEnvString st key d = v"
  by (simp add: GetEnvString_def LookupEnv_def)

lemma GetEnvString_envMap:
  "environ st key = None \<Longrightarrow> envMap st key = Some v \<Longrightarrow> GetEnvString st key d = v"
  by (simp add: GetEnvString_def LookupEnv_def)


lemma answer_of_raw_empty:
  assumes "GetEnvString st (keyOf c) '''' = ''''" and "\<not> plainString c"
  shows "answer L st c = Inr (defaultOf c)"
  using assms
  by (cases c)
     (simp_all add: GetEnvArrayString_def GetEnvInt_def GetEnvDuration_def GetEnvBool_def
        GetEnvFloat64_def GetEnvArrayInt_def GetEnvArrayDuration_def
        GetEnvMapStringString_def)


section \<open>Lemmas on splitting\<close>

lemma Index_Some_at: "Index s substr = Some i \<Longrightarrow> take (length substr) (drop i s) = substr"
proof (induction s arbitrary: i)
  case Nil
  then show ?case by (simp split: if_splits)
next
  case (Cons c t)
  show ?case
  proof (cases "prefix substr (c # t)")
    case True
    with Cons.prems have "i = 0" by simp
    with True show ?thesis by (auto simp: prefix_def)
  next
    case False
    with Cons.prems obtain j where "Index t substr = Some j" and "i = Suc j"
      by auto
    with Cons.IH show ?thesis by simp
  qed
qed

lemma Index_Some_decompose:
  assumes "Index s substr = Some i"
  shows "s = take i s @ substr @ drop (i + length substr) s"
proof -
  have "drop i s = take (length substr) (drop i s) @ drop (length substr) (drop i s)"
    by (rule append_take_drop_id [symmetric])
  also have "drop (length substr) (drop i s) = drop (i + length substr) s"
    by (simp add: add.commute)
  finally have "drop i s = substr @ drop (i + length substr) s"
    using Index_Some_at [OF assms] by simp
  then have "take i s @ drop i s = take i s @ substr @ drop (i + length substr) s"
    by simp
  then show ?thesis by simp
qed

lemma joinWith_Cons: "xs \<noteq> [] \<Longrightarrow> joinWith sep (x # xs) = x @ sep @ joinWith sep xs"
  by (cases xs) simp_all

lemma splitLoop_nonempty: "splitLoop k s sep sepSave \<noteq> []"
  by (cases k) (simp_all split: option.splits)

lemma joinWith_splitLoop: "joinWith sep (splitLoop k s sep 0) = s"
proof (induction k arbitrary: s)
  case 0
  show ?case by simp
next
  case (Suc k)
  show ?case
  proof (cases "Index s sep")
    case None
    then show ?thesis by simp
  next
    case (Some m)
    have "joinWith sep (splitLoop (Suc k) s sep 0)
            = take m s @ sep @ joinWith sep (splitLoop k (drop (m + length sep) s) sep 0)"
      using Some by (simp add: joinWith_Cons splitLoop_nonempty)
    also have "\<dots> = take m s @ sep @ drop (m + length sep) s"
      by (simp add: Suc.IH)
    also have "\<dots> = s"
      using Index_Some_decompose [OF Some] by simp
    finally show ?thesis .
  qed
qed

lemma joinWith_empty_sep: "joinWith [] xs = concat xs"
  by (induction "[] :: string" xs rule: joinWith.induct) simp_all

lemma concat_explodeLoop: "concat (explodeLoop k s) = s"
  by (induction k arbitrary: s) simp_all

lemma joinWith_Split: "joinWith sep (Split s sep) = s"
proof (cases "sep = []")
  case True
  have "concat (explode s (- 1)) = s"
  proof (cases "s = []")
    case True
    then have "RuneCountInString s = 0"
      by (subst RuneCountInString.simps) simp
    with True show ?thesis by (simp add: explode_def)
  next
    case False
    then have "0 < RuneCountInString s"
      by (subst RuneCountInString.simps) simp
    then show ?thesis by (simp add: explode_def concat_explodeLoop)
  qed
  with True show ?thesis
    by (simp add: Split_def genSplit_def joinWith_empty_sep)
next
  case False
  then show ?thesis
    by (simp add: Split_def genSplit_def Let_def joinWith_splitLoop)
qed

text \<open>The loops of the array and map accessors stop at the first element that fails.\<close>

lemma intLoop_find:
  "intLoop L key elems acc =
     (case find (\<lambda>e. isl (Atoi L e)) elems of
        None \<Rightarrow> Inr (acc @ map (\<lambda>e. projr (Atoi L e)) elems)
      | Some e \<Rightarrow>
          Inl (''Environment variable '' @ key @ '' array contains an invalid integer: '' @ e))"
proof (induction elems arbitrary: acc)
  case Nil
  show ?case by simp
next
  case (Cons e elems)
  show ?case by (cases "Atoi L e") (simp_all add: Cons.IH split: option.splits)
qed

lemma durationLoop_find:
  "durationLoop L key elems acc =
     (case find (\<lambda>e. isl (ParseDuration L e)) elems of
        None \<Rightarrow> Inr (acc @ map (\<lambda>e. projr (ParseDuration L e)) elems)
      | Some e \<Rightarrow>
          Inl (''Environment variable '' @ key @ '' array contains an invalid duration: '' @ e))"
proof (induction elems arbitrary: acc)
  case Nil
  show ?case by simp
next
  case (Cons e elems)
  show ?case by (cases "ParseDuration L e") (simp_all add: Cons.IH split: option.splits)
qed

lemma entryLoop_find:
  "entryLoop key kvDelimiter entries result =
     (case find (\<lambda>e. length (SplitN e kvDelimiter 2) \<noteq> 2) entries of
        None \<Rightarrow>
          Inr (foldl (\<lambda>m e. m(TrimSpace (SplitN e kvDelimiter 2 ! 0)
                               \<mapsto> TrimSpace (SplitN e kvDelimiter 2 ! 1))) result entries)
      | Some e \<Rightarrow>
          Inl (''Environment variable '' @ key @ '' contains invalid map entry: '' @ e))"
proof (induction entries arbitrary: result)
  case Nil
  show ?case by simp
next
  case (Cons e entries)
  show ?case by (simp add: Cons.IH Let_def split: option.splits)
qed

section \<open>Lemmas on the scan\<close>

text \<open>The scan of \<open>init\<close> assigns to \<open>envMap\<close> only.\<close>

lemma environ_loadLine: "environ (loadLine st text) = environ st"
  by (simp add: loadLine_def Let_def split: option.splits)

lemma environ_foldl_loadLine: "environ (foldl loadLine st lines) = environ st"
  by (induction lines arbitrary: st) (simp_all add: environ_loadLine)

lemma environ_loadFile: "environ (loadFile H st file) = environ st"
  by (simp add: loadFile_def environ_foldl_loadLine split: option.splits)

lemma environ_foldl_loadFile: "environ (foldl (loadFile H) st files) = environ st"
  by (induction files arbitrary: st) (simp_all add: environ_loadFile)

lemma environ_init: "environ (init H st) = environ st"
  by (simp add: init_def Let_def environ_foldl_loadFile split: option.splits)

lemma Index_single:
  "Index s [c] =
     (if c \<in> set s then Some (length (takeWhile (\<lambda>x. x \<noteq> c) s)) else None)"
  by (induction s) auto

lemma take_length_takeWhile: "take (length (takeWhile P s)) s = takeWhile P s"
  by (induction s) simp_all

lemma drop_Suc_length_takeWhile:
  "drop (Suc (length (takeWhile P s))) s = tl (dropWhile P s)"
  by (induction s) simp_all

lemma SplitN_first:
  "SplitN s [c] 2 =
     (if c \<in> set s
      then [takeWhile (\<lambda>x. x \<noteq> c) s, tl (dropWhile (\<lambda>x. x \<noteq> c) s)]
      else [s])"
proof (cases "s = []")
  case True
  then show ?thesis by (simp add: SplitN_def genSplit_def)
next
  case False
  then have "nat ((if int (length s) + 1 < 2 then int (length s) + 1 else 2) - 1) = Suc 0"
    by (cases s) simp_all
  then have "SplitN s [c] 2 = splitLoop (Suc 0) s [c] 0"
    by (simp add: SplitN_def genSplit_def)
  also have "\<dots> = (if c \<in> set s
      then [takeWhile (\<lambda>x. x \<noteq> c) s, tl (dropWhile (\<lambda>x. x \<noteq> c) s)]
      else [s])"
    by (simp add: Index_single take_length_takeWhile drop_Suc_length_takeWhile)
  finally show ?thesis .
qed

lemma HasPrefix_single: "HasPrefix s [c] \<longleftrightarrow> s \<noteq> [] \<and> hd s = c"
  by (cases s) (auto simp: HasPrefix_def)

lemma envMap_loadLine:
  "envMap (loadLine st text) = specInsert (environ st) (envMap st) text"
  by (auto simp: loadLine_def specInsert_def specPair_def Let_def SplitN_first
        HasPrefix_single LookupEnv_def split: option.splits)

lemma envMap_foldl_loadLine:
  "envMap (foldl loadLine st lines) = foldl (specInsert (environ st)) (envMap st) lines"
  by (induction lines arbitrary: st) (simp_all add: envMap_loadLine environ_loadLine)

lemma envMap_loadFile:
  "envMap (loadFile H st file) = foldl (specInsert (environ st)) (envMap st) (linesOf H file)"
  by (simp add: loadFile_def linesOf_def envMap_foldl_loadLine split: option.splits)

lemma envMap_foldl_loadFile:
  "envMap (foldl (loadFile H) st files)
     = foldl (specInsert (environ st)) (envMap st) (concat (map (linesOf H) files))"
  by (induction files arbitrary: st) (simp_all add: envMap_loadFile environ_loadFile)

lemma envMap_init:
  "envMap (init H st)
     = foldl (specInsert (environ st)) (envMap st) (concat (map (linesOf H) (discovered H)))"
  by (simp add: init_def discovered_def Let_def envMap_foldl_loadFile split: option.splits)

section \<open>Lemmas on the steps\<close>

text \<open>
  Each accessor, as a step, returns what the accessor computes and the state it was
  called in.
\<close>

lemma GetEnvString_step_eq:
  "GetEnvString_step key d st = (GetEnvString st key d, st)"
  by (simp add: GetEnvString_step_def GetEnvString_def readEnviron_def readEnvMap_def
        split: option.splits)

lemma GetEnvArrayString_step_eq:
  "GetEnvArrayString_step key split d st = (GetEnvArrayString st key split d, st)"
  by (simp add: GetEnvArrayString_step_def GetEnvArrayString_def GetEnvString_step_eq)

lemma GetEnvInt_step_eq:
  "GetEnvInt_step L key d st = (GetEnvInt L st key d, st)"
  by (simp add: GetEnvInt_step_def GetEnvInt_def GetEnvString_step_eq split: sum.splits)

lemma GetEnvDuration_step_eq:
  "GetEnvDuration_step L key d st = (GetEnvDuration L st key d, st)"
  by (simp add: GetEnvDuration_step_def GetEnvDuration_def GetEnvString_step_eq
        split: sum.splits)

lemma GetEnvBool_step_eq:
  "GetEnvBool_step L key d st = (GetEnvBool L st key d, st)"
  by (simp add: GetEnvBool_step_def GetEnvBool_def GetEnvString_step_eq split: sum.splits)

lemma GetEnvFloat64_step_eq:
  "GetEnvFloat64_step L key d st = (GetEnvFloat64 L st key d, st)"
  by (simp add: GetEnvFloat64_step_def GetEnvFloat64_def GetEnvString_step_eq
        split: sum.splits)

lemma GetEnvArrayInt_step_eq:
  "GetEnvArrayInt_step L key split d st = (GetEnvArrayInt L st key split d, st)"
  by (simp add: GetEnvArrayInt_step_def GetEnvArrayInt_def GetEnvString_step_eq)

lemma GetEnvArrayDuration_step_eq:
  "GetEnvArrayDuration_step L key split d st = (GetEnvArrayDuration L st key split d, st)"
  by (simp add: GetEnvArrayDuration_step_def GetEnvArrayDuration_def GetEnvString_step_eq)

lemma GetEnvMapStringString_step_eq:
  "GetEnvMapStringString_step key entryDelimiter kvDelimiter d st
     = (GetEnvMapStringString st key entryDelimiter kvDelimiter d, st)"
  by (simp add: GetEnvMapStringString_step_def GetEnvMapStringString_def
        GetEnvString_step_eq)

lemma perform_eq: "perform L c st = (answer L st c, st)"
  by (cases c)
     (simp_all add: GetEnvString_step_eq GetEnvArrayString_step_eq GetEnvInt_step_eq
        GetEnvDuration_step_eq GetEnvBool_step_eq GetEnvFloat64_step_eq
        GetEnvArrayInt_step_eq GetEnvArrayDuration_step_eq GetEnvMapStringString_step_eq)

lemma stateAfter_eq: "stateAfter L cs st = st"
  by (induction cs arbitrary: st) (simp_all add: perform_eq)

section \<open>The claims\<close>




text \<open>
  Claim C2. For every accessor except \<open>GetEnvString\<close> (Boolean, integer, float,
  duration, the three array forms and the map form): if the raw string resolved through
  the process environment and then \<open>envMap\<close> is the empty string, the accessor returns
  the caller's default unchanged. No parser is consulted: the result is the same for
  every library \<open>L\<close>.
\<close>

theorem C2_empty_raw_value_gives_default:
  assumes "GetEnvString st key '''' = ''''"
  shows "GetEnvBool L st key dBool = Inr dBool
       \<and> GetEnvInt L st key dInt = Inr dInt
       \<and> GetEnvFloat64 L st key dFloat = Inr dFloat
       \<and> GetEnvDuration L st key dDuration = Inr dDuration
       \<and> GetEnvArrayString st key split dStrings = dStrings
       \<and> GetEnvArrayInt L st key split dInts = Inr dInts
       \<and> GetEnvArrayDuration L st key split dDurations = Inr dDurations
       \<and> GetEnvMapStringString st key entryDelimiter kvDelimiter dMap = Inr dMap"
  using assms
  by (simp add: GetEnvArrayString_def GetEnvInt_def GetEnvDuration_def GetEnvBool_def
        GetEnvFloat64_def GetEnvArrayInt_def GetEnvArrayDuration_def
        GetEnvMapStringString_def)

theorem C2_empty_raw_value_gives_default_witness:
  "GetEnvString \<lparr>environ = Map.empty, envMap = [''K'' \<mapsto> '''']\<rparr> ''K'' '''' = ''''
   \<and> GetEnvBool exampleLib \<lparr>environ = Map.empty, envMap = [''K'' \<mapsto> '''']\<rparr> ''K'' True = Inr True
   \<and> GetEnvInt exampleLib \<lparr>environ = Map.empty, envMap = [''K'' \<mapsto> '''']\<rparr> ''K'' 7 = Inr 7
   \<and> GetEnvArrayString \<lparr>environ = Map.empty, envMap = [''K'' \<mapsto> '''']\<rparr> ''K'' '','' [''x'']
        = [''x'']"
proof -
  let ?st = "\<lparr>environ = Map.empty, envMap = [''K'' \<mapsto> '''']\<rparr>"
  have h: "GetEnvString ?st ''K'' '''' = ''''"
    by (simp add: GetEnvString_def LookupEnv_def)
  from C2_empty_raw_value_gives_default
         [OF h, of exampleLib True 7 _ _ "'',''" "[''x'']"]
  show ?thesis using h by simp
qed

text \<open>
  Claim C3. The overlay built at startup (the scan of \<open>init\<close> run on the empty \<open>envMap\<close>)
  is the map obtained by processing the lines of every discovered \<open>.env\<close> file in order:
  each line is trimmed; empty lines and lines that start with \<open>#\<close> are skipped; the
  others are split on the first \<open>=\<close> into a key and a value, each trimmed, a line
  without \<open>=\<close> being skipped; the pair is inserted only if the process environment does
  not define the key at that time. The insertion does not look at the overlay: a line
  whose key the process environment does not define sets the key to its value whatever
  the overlay held, so the entry of a later file overwrites that of an earlier one.
\<close>

theorem C3_overlay_built_by_scan:
  "envMap (init H (start env)) = specOverlay env H
   \<and> (specPair text = Some (key, val) \<and> environ st key = None
        \<longrightarrow> envMap (loadLine st text) = (envMap st)(key \<mapsto> val))"
  by (auto simp: envMap_init start_def specOverlay_def envMap_loadLine specInsert_def)


theorem C3_overlay_built_by_scan_witness:
  "envMap (init exampleHost (start [''HOME'' \<mapsto> ''/root'']))
     = [''PORT'' \<mapsto> ''8080'', ''NAME'' \<mapsto> ''second=x'']
   \<and> specPair ''NAME=second=x'' = Some (''NAME'', ''second=x'')
   \<and> environ \<lparr>environ = [''HOME'' \<mapsto> ''/root''], envMap = [''NAME'' \<mapsto> ''first'']\<rparr> ''NAME'' = None
   \<and> envMap (loadLine \<lparr>environ = [''HOME'' \<mapsto> ''/root''], envMap = [''NAME'' \<mapsto> ''first'']\<rparr>
                ''NAME=second=x'')
       = [''NAME'' \<mapsto> ''second=x'']"
proof -
  let ?env = "[''HOME'' \<mapsto> ''/root'']"
  let ?st = "\<lparr>environ = ?env, envMap = [''NAME'' \<mapsto> ''first'']\<rparr>"
  have files: "discovered exampleHost = [''/app/a.env'', ''/app/locked.env'', ''/app/b.env'']"
    by (simp add: discovered_def exampleHost_def exampleDir_def exampleJoin_def exampleGlob_def)
  have lines:
    "linesOf exampleHost ''/app/a.env''
       = [''# settings'', '' PORT = 8080 '', ''HOME=/tmp'', ''novalue'', '''', ''NAME=first'']"
    "linesOf exampleHost ''/app/locked.env'' = []"
    "linesOf exampleHost ''/app/b.env'' = [''NAME=second=x'']"
    by (simp_all add: linesOf_def exampleHost_def exampleScanLines_def)
  have pairs:
    "specPair ''# settings'' = None"
    "specPair '' PORT = 8080 '' = Some (''PORT'', ''8080'')"
    "specPair ''HOME=/tmp'' = Some (''HOME'', ''/tmp'')"
    "specPair ''novalue'' = None"
    "specPair '''' = None"
    "specPair ''NAME=first'' = Some (''NAME'', ''first'')"
    "specPair ''NAME=second=x'' = Some (''NAME'', ''second=x'')"
    by code_simp+
  have overlay: "specOverlay ?env exampleHost = [''PORT'' \<mapsto> ''8080'', ''NAME'' \<mapsto> ''second=x'']"
    by (simp add: specOverlay_def files lines specInsert_def pairs)
  have none: "environ ?st ''NAME'' = None"
    by simp
  note t = C3_overlay_built_by_scan
             [of exampleHost ?env "''NAME=second=x''" "''NAME''" "''second=x''" ?st]
  from t overlay have a: "envMap (init exampleHost (start ?env))
     = [''PORT'' \<mapsto> ''8080'', ''NAME'' \<mapsto> ''second=x'']"
    by simp
  from t pairs(7) none have b: "envMap (loadLine ?st ''NAME=second=x'') = [''NAME'' \<mapsto> ''second=x'']"
    by simp
  from a b pairs(7) none show ?thesis by simp
qed

text \<open>
  Claim C4. For each scalar typed accessor (Boolean, integer, float, duration): if the
  resolved raw value is not empty and the parser of the type rejects it, the call panics
  with a message that contains the name of the key; and if the resolved raw value is not
  empty and the parser accepts it, the accessor returns the parsed value and does not
  panic.
\<close>

theorem C4_scalar_accessors_parse_or_panic:
  assumes "GetEnvString st key '''' = raw" and "raw \<noteq> ''''"
  shows "(isl (ParseBool L raw) \<longrightarrow>
            (\<exists>msg. GetEnvBool L st key dBool = Inl msg \<and> sublist key msg))
       \<and> (\<forall>b. ParseBool L raw = Inr b \<longrightarrow> GetEnvBool L st key dBool = Inr b)
       \<and> (isl (Atoi L raw) \<longrightarrow>
            (\<exists>msg. GetEnvInt L st key dInt = Inl msg \<and> sublist key msg))
       \<and> (\<forall>n. Atoi L raw = Inr n \<longrightarrow> GetEnvInt L st key dInt = Inr n)
       \<and> (isl (ParseFloat L raw 64) \<longrightarrow>
            (\<exists>msg. GetEnvFloat64 L st key dFloat = Inl msg \<and> sublist key msg))
       \<and> (\<forall>x. ParseFloat L raw 64 = Inr x \<longrightarrow> GetEnvFloat64 L st key dFloat = Inr x)
       \<and> (isl (ParseDuration L raw) \<longrightarrow>
            (\<exists>msg. GetEnvDuration L st key dDuration = Inl msg \<and> sublist key msg))
       \<and> (\<forall>t. ParseDuration L raw = Inr t \<longrightarrow> GetEnvDuration L st key dDuration = Inr t)"
proof -
  have named: "sublist key (''Environment variable '' @ key @ rest)" for rest
    by (rule sublist_appendI)
  have bool: "isl (ParseBool L raw) \<longrightarrow>
            (\<exists>msg. GetEnvBool L st key dBool = Inl msg \<and> sublist key msg)"
    using assms named [of "'' is not a valid boolean: '' @ projl (ParseBool L raw)"]
    by (cases "ParseBool L raw") (simp_all add: GetEnvBool_def)
  have int: "isl (Atoi L raw) \<longrightarrow>
            (\<exists>msg. GetEnvInt L st key dInt = Inl msg \<and> sublist key msg)"
    using assms named [of "'' is not a valid integer: '' @ projl (Atoi L raw)"]
    by (cases "Atoi L raw") (simp_all add: GetEnvInt_def)
  have float: "isl (ParseFloat L raw 64) \<longrightarrow>
            (\<exists>msg. GetEnvFloat64 L st key dFloat = Inl msg \<and> sublist key msg)"
    using assms named [of "'' is not a valid float64: '' @ projl (ParseFloat L raw 64)"]
    by (cases "ParseFloat L raw 64") (simp_all add: GetEnvFloat64_def)
  have duration: "isl (ParseDuration L raw) \<longrightarrow>
            (\<exists>msg. GetEnvDuration L st key dDuration = Inl msg \<and> sublist key msg)"
    using assms named [of "'' is not a valid duration: '' @ projl (ParseDuration L raw)"]
    by (cases "ParseDuration L raw") (simp_all add: GetEnvDuration_def)
  have ok: "(\<forall>b. ParseBool L raw = Inr b \<longrightarrow> GetEnvBool L st key dBool = Inr b)
       \<and> (\<forall>n. Atoi L raw = Inr n \<longrightarrow> GetEnvInt L st key dInt = Inr n)
       \<and> (\<forall>x. ParseFloat L raw 64 = Inr x \<longrightarrow> GetEnvFloat64 L st key dFloat = Inr x)
       \<and> (\<forall>t. ParseDuration L raw = Inr t \<longrightarrow> GetEnvDuration L st key dDuration = Inr t)"
    using assms
    by (simp add: GetEnvBool_def GetEnvInt_def GetEnvFloat64_def GetEnvDuration_def)
  from bool int float duration ok show ?thesis by blast
qed

theorem C4_scalar_accessors_parse_or_panic_witness:
  "GetEnvString \<lparr>environ = [''T'' \<mapsto> ''1m''], envMap = Map.empty\<rparr> ''T'' '''' = ''1m''
   \<and> ''1m'' \<noteq> ''''
   \<and> isl (Atoi exampleLib ''1m'')
   \<and> (\<exists>msg. GetEnvInt exampleLib \<lparr>environ = [''T'' \<mapsto> ''1m''], envMap = Map.empty\<rparr> ''T'' 0
               = Inl msg \<and> sublist ''T'' msg)
   \<and> ParseDuration exampleLib ''1m'' = Inr 60000000000
   \<and> GetEnvDuration exampleLib \<lparr>environ = [''T'' \<mapsto> ''1m''], envMap = Map.empty\<rparr> ''T'' 0
       = Inr 60000000000"
proof -
  let ?st = "\<lparr>environ = [''T'' \<mapsto> ''1m''], envMap = Map.empty\<rparr>"
  have h1: "GetEnvString ?st ''T'' '''' = ''1m''"
    by (simp add: GetEnvString_def LookupEnv_def)
  have h2: "''1m'' \<noteq> ''''" by simp
  have h3: "isl (Atoi exampleLib ''1m'')"
    by (simp add: example_defs)
  have h4: "ParseDuration exampleLib ''1m'' = Inr 60000000000"
    by (simp add: example_defs)
  note t = C4_scalar_accessors_parse_or_panic [OF h1 h2, of exampleLib _ 0 _ 0]
  from t h3 have a: "\<exists>msg. GetEnvInt exampleLib ?st ''T'' 0 = Inl msg \<and> sublist ''T'' msg"
    by blast
  from t h4 have b: "GetEnvDuration exampleLib ?st ''T'' 0 = Inr 60000000000"
    by blast
  from h1 h2 h3 h4 a b show ?thesis by blast
qed

text \<open>
  Claim C5. For \<open>GetEnvArrayInt\<close>, \<open>GetEnvArrayDuration\<close> and \<open>GetEnvMapStringString\<close>,
  when the resolved raw value is not empty: either every split element parses (every
  entry splits into exactly two parts on the key/value delimiter) and the complete
  collection is returned, or the call panics at the first element that does not, with a
  message that names that element. A collection parsed in part is never returned.
\<close>

theorem C5_collections_complete_or_panic:
  assumes "GetEnvString st key '''' = raw" and "raw \<noteq> ''''"
  shows "((find (\<lambda>e. isl (Atoi L e)) (Split raw split) = None
           \<and> GetEnvArrayInt L st key split dInts
               = Inr (map (\<lambda>e. projr (Atoi L e)) (Split raw split)))
          \<or> (\<exists>e msg. find (\<lambda>e. isl (Atoi L e)) (Split raw split) = Some e
                \<and> GetEnvArrayInt L st key split dInts = Inl msg \<and> sublist e msg))
       \<and> ((find (\<lambda>e. isl (ParseDuration L e)) (Split raw split) = None
           \<and> GetEnvArrayDuration L st key split dDurations
               = Inr (map (\<lambda>e. projr (ParseDuration L e)) (Split raw split)))
          \<or> (\<exists>e msg. find (\<lambda>e. isl (ParseDuration L e)) (Split raw split) = Some e
                \<and> GetEnvArrayDuration L st key split dDurations = Inl msg \<and> sublist e msg))
       \<and> ((find (\<lambda>e. length (SplitN e kvDelimiter 2) \<noteq> 2) (Split raw entryDelimiter) = None
           \<and> GetEnvMapStringString st key entryDelimiter kvDelimiter dMap
               = Inr (foldl (\<lambda>m e. m(TrimSpace (SplitN e kvDelimiter 2 ! 0)
                                       \<mapsto> TrimSpace (SplitN e kvDelimiter 2 ! 1)))
                        Map.empty (Split raw entryDelimiter)))
          \<or> (\<exists>e msg. find (\<lambda>e. length (SplitN e kvDelimiter 2) \<noteq> 2)
                         (Split raw entryDelimiter) = Some e
                \<and> GetEnvMapStringString st key entryDelimiter kvDelimiter dMap = Inl msg
                \<and> sublist e msg))"
proof -
  have named: "sublist e (pre @ e)" for pre e :: string
    using sublist_appendI [of e pre "[]"] by simp
  have ints: "GetEnvArrayInt L st key split dInts = intLoop L key (Split raw split) []"
    using assms by (simp add: GetEnvArrayInt_def)
  have durations:
    "GetEnvArrayDuration L st key split dDurations = durationLoop L key (Split raw split) []"
    using assms by (simp add: GetEnvArrayDuration_def)
  have entries:
    "GetEnvMapStringString st key entryDelimiter kvDelimiter dMap
       = entryLoop key kvDelimiter (Split raw entryDelimiter) Map.empty"
    using assms by (simp add: GetEnvMapStringString_def)
  have a: "(find (\<lambda>e. isl (Atoi L e)) (Split raw split) = None
           \<and> GetEnvArrayInt L st key split dInts
               = Inr (map (\<lambda>e. projr (Atoi L e)) (Split raw split)))
          \<or> (\<exists>e msg. find (\<lambda>e. isl (Atoi L e)) (Split raw split) = Some e
                \<and> GetEnvArrayInt L st key split dInts = Inl msg \<and> sublist e msg)"
  proof (cases "find (\<lambda>e. isl (Atoi L e)) (Split raw split)")
    case None
    then show ?thesis by (simp add: ints intLoop_find)
  next
    case (Some e)
    then show ?thesis
      using named [of e "''Environment variable '' @ key @ '' array contains an invalid integer: ''"]
      by (simp add: ints intLoop_find)
  qed
  have b: "(find (\<lambda>e. isl (ParseDuration L e)) (Split raw split) = None
           \<and> GetEnvArrayDuration L st key split dDurations
               = Inr (map (\<lambda>e. projr (ParseDuration L e)) (Split raw split)))
          \<or> (\<exists>e msg. find (\<lambda>e. isl (ParseDuration L e)) (Split raw split) = Some e
                \<and> GetEnvArrayDuration L st key split dDurations = Inl msg \<and> sublist e msg)"
  proof (cases "find (\<lambda>e. isl (ParseDuration L e)) (Split raw split)")
    case None
    then show ?thesis by (simp add: durations durationLoop_find)
  next
    case (Some e)
    then show ?thesis
      using named [of e "''Environment variable '' @ key @ '' array contains an invalid duration: ''"]
      by (simp add: durations durationLoop_find)
  qed
  have c: "(find (\<lambda>e. length (SplitN e kvDelimiter 2) \<noteq> 2) (Split raw entryDelimiter) = None
           \<and> GetEnvMapStringString st key entryDelimiter kvDelimiter dMap
               = Inr (foldl (\<lambda>m e. m(TrimSpace (SplitN e kvDelimiter 2 ! 0)
                                       \<mapsto> TrimSpace (SplitN e kvDelimiter 2 ! 1)))
                        Map.empty (Split raw entryDelimiter)))
          \<or> (\<exists>e msg. find (\<lambda>e. length (SplitN e kvDelimiter 2) \<noteq> 2)
                         (Split raw entryDelimiter) = Some e
                \<and> GetEnvMapStringString st key entryDelimiter kvDelimiter dMap = Inl msg
                \<and> sublist e msg)"
  proof (cases "find (\<lambda>e. length (SplitN e kvDelimiter 2) \<noteq> 2) (Split raw entryDelimiter)")
    case None
    then show ?thesis by (simp add: entries entryLoop_find)
  next
    case (Some e)
    then show ?thesis
      using named [of e "''Environment variable '' @ key @ '' contains invalid map entry: ''"]
      by (simp add: entries entryLoop_find)
  qed
  from a b c show ?thesis by blast
qed


theorem C5_collections_complete_or_panic_witness:
  "GetEnvArrayInt exampleLib \<lparr>environ = [''A'' \<mapsto> ''1,2,3''], envMap = Map.empty\<rparr> ''A'' '','' []
     = Inr [1, 2, 3]
   \<and> (\<exists>msg. GetEnvArrayInt exampleLib \<lparr>environ = [''A'' \<mapsto> ''1,x,3''], envMap = Map.empty\<rparr>
                ''A'' '','' [] = Inl msg \<and> sublist ''x'' msg)
   \<and> GetEnvArrayDuration exampleLib \<lparr>environ = [''A'' \<mapsto> ''1m,2m,3m''], envMap = Map.empty\<rparr>
        ''A'' '','' [] = Inr [60000000000, 120000000000, 180000000000]
   \<and> GetEnvMapStringString \<lparr>environ = [''A'' \<mapsto> ''key1:val1,key2:val2''], envMap = Map.empty\<rparr>
        ''A'' '','' '':'' Map.empty = Inr [''key1'' \<mapsto> ''val1'', ''key2'' \<mapsto> ''val2'']
   \<and> (\<exists>msg. GetEnvMapStringString \<lparr>environ = [''A'' \<mapsto> ''key1val1''], envMap = Map.empty\<rparr>
                ''A'' '','' '':'' Map.empty = Inl msg \<and> sublist ''key1val1'' msg)"
proof -
  have raw: "GetEnvString \<lparr>environ = [''A'' \<mapsto> v], envMap = Map.empty\<rparr> ''A'' '''' = v" for v
    by (simp add: GetEnvString_def LookupEnv_def)
  have a: "GetEnvArrayInt exampleLib \<lparr>environ = [''A'' \<mapsto> ''1,2,3''], envMap = Map.empty\<rparr>
             ''A'' '','' [] = Inr [1, 2, 3]"
  proof -
    have f: "find (\<lambda>e. isl (Atoi exampleLib e)) (Split ''1,2,3'' '','') = None"
      by code_simp
    have m: "map (\<lambda>e. projr (Atoi exampleLib e)) (Split ''1,2,3'' '','') = [1, 2, 3]"
      by code_simp
    from C5_collections_complete_or_panic
           [OF raw, of "''1,2,3''" exampleLib "'',''" "[]" "[]" "'':''" "'',''" Map.empty] f m
    show ?thesis by simp
  qed
  have b: "\<exists>msg. GetEnvArrayInt exampleLib \<lparr>environ = [''A'' \<mapsto> ''1,x,3''], envMap = Map.empty\<rparr>
                ''A'' '','' [] = Inl msg \<and> sublist ''x'' msg"
  proof -
    have f: "find (\<lambda>e. isl (Atoi exampleLib e)) (Split ''1,x,3'' '','') = Some ''x''"
      by code_simp
    from C5_collections_complete_or_panic
           [OF raw, of "''1,x,3''" exampleLib "'',''" "[]" "[]" "'':''" "'',''" Map.empty] f
    show ?thesis by simp
  qed
  have c: "GetEnvArrayDuration exampleLib \<lparr>environ = [''A'' \<mapsto> ''1m,2m,3m''], envMap = Map.empty\<rparr>
             ''A'' '','' [] = Inr [60000000000, 120000000000, 180000000000]"
  proof -
    have f: "find (\<lambda>e. isl (ParseDuration exampleLib e)) (Split ''1m,2m,3m'' '','') = None"
      by code_simp
    have m: "map (\<lambda>e. projr (ParseDuration exampleLib e)) (Split ''1m,2m,3m'' '','')
               = [60000000000, 120000000000, 180000000000]"
      by code_simp
    from C5_collections_complete_or_panic
           [OF raw, of "''1m,2m,3m''" exampleLib "'',''" "[]" "[]" "'':''" "'',''" Map.empty] f m
    show ?thesis by simp
  qed
  have d: "GetEnvMapStringString \<lparr>environ = [''A'' \<mapsto> ''key1:val1,key2:val2''], envMap = Map.empty\<rparr>
             ''A'' '','' '':'' Map.empty = Inr [''key1'' \<mapsto> ''val1'', ''key2'' \<mapsto> ''val2'']"
  proof -
    have s: "Split ''key1:val1,key2:val2'' '','' = [''key1:val1'', ''key2:val2'']"
      by code_simp
    have s1: "SplitN ''key1:val1'' '':'' 2 = [''key1'', ''val1'']"
      by code_simp
    have s2: "SplitN ''key2:val2'' '':'' 2 = [''key2'', ''val2'']"
      by code_simp
    have t: "TrimSpace ''key1'' = ''key1''" "TrimSpace ''val1'' = ''val1''"
            "TrimSpace ''key2'' = ''key2''" "TrimSpace ''val2'' = ''val2''"
      by code_simp+
    from C5_collections_complete_or_panic
           [OF raw, of "''key1:val1,key2:val2''" exampleLib "'',''" "[]" "[]" "'':''" "'',''"
              Map.empty]
    show ?thesis by (simp add: s s1 s2 t)
  qed
  have e: "\<exists>msg. GetEnvMapStringString \<lparr>environ = [''A'' \<mapsto> ''key1val1''], envMap = Map.empty\<rparr>
                ''A'' '','' '':'' Map.empty = Inl msg \<and> sublist ''key1val1'' msg"
  proof -
    have s: "Split ''key1val1'' '','' = [''key1val1'']"
      by code_simp
    have s1: "SplitN ''key1val1'' '':'' 2 = [''key1val1'']"
      by code_simp
    from C5_collections_complete_or_panic
           [OF raw, of "''key1val1''" exampleLib "'',''" "[]" "[]" "'':''" "'',''" Map.empty]
    show ?thesis by (simp add: s s1)
  qed
  from a b c d e show ?thesis by blast
qed

text \<open>
  Claim C6, as the code has it. For every resolved raw value that is not empty and every
  delimiter, \<open>GetEnvArrayString\<close> returns the ordered sequence of substrings obtained
  by splitting the raw value on the delimiter, each substring as it stands in the raw
  value (white space is not trimmed): joined again with the delimiter, the substrings
  give the raw value back. The accessor never fails (it has no panic).
\<close>

theorem C6_array_string_split_untrimmed:
  assumes "GetEnvString st key '''' = raw" and "raw \<noteq> ''''"
  shows "GetEnvArrayString st key split d = Split raw split
       \<and> joinWith split (GetEnvArrayString st key split d) = raw"
  using assms by (simp add: GetEnvArrayString_def joinWith_Split)

theorem C6_array_string_split_untrimmed_witness:
  "GetEnvString \<lparr>environ = [''L'' \<mapsto> ''a,b,c''], envMap = Map.empty\<rparr> ''L'' '''' = ''a,b,c''
   \<and> ''a,b,c'' \<noteq> ''''
   \<and> GetEnvArrayString \<lparr>environ = [''L'' \<mapsto> ''a,b,c''], envMap = Map.empty\<rparr> ''L'' '','' []
       = [''a'', ''b'', ''c'']
   \<and> joinWith '',''
        (GetEnvArrayString \<lparr>environ = [''L'' \<mapsto> ''a,b,c''], envMap = Map.empty\<rparr> ''L'' '','' [])
       = ''a,b,c''"
proof -
  let ?st = "\<lparr>environ = [''L'' \<mapsto> ''a,b,c''], envMap = Map.empty\<rparr>"
  have h1: "GetEnvString ?st ''L'' '''' = ''a,b,c''"
    by (simp add: GetEnvString_def LookupEnv_def)
  have h2: "''a,b,c'' \<noteq> ''''" by simp
  have s: "Split ''a,b,c'' '','' = [''a'', ''b'', ''c'']"
    by code_simp
  from C6_array_string_split_untrimmed [OF h1 h2, of "'',''" "[]"] s h1
  show ?thesis by simp
qed

text \<open>
  The claim C6 as the specification words it (surrounding white space trimmed from each
  substring) fails: for the raw value \<open>a, b\<close> and the delimiter \<open>,\<close> the accessor
  returns the second substring with its leading space, while the trimmed substrings
  are \<open>a\<close> and \<open>b\<close>.
\<close>

theorem C6_trimmed_counterexample:
  "GetEnvArrayString \<lparr>environ = [''L'' \<mapsto> ''a, b''], envMap = Map.empty\<rparr> ''L'' '','' []
     = [''a'', '' b'']
   \<and> map TrimSpace (Split ''a, b'' '','') = [''a'', ''b'']"
proof -
  have "Split ''a, b'' '','' = [''a'', '' b'']"
    by code_simp
  moreover have "map TrimSpace [''a'', '' b''] = [''a'', ''b'']"
    by code_simp
  ultimately show ?thesis
    by (simp add: GetEnvArrayString_def GetEnvString_def LookupEnv_def)
qed

text \<open>
  Claim C7, as the code has it. \<open>GetEnvBool\<close> parses with \<open>strconv.ParseBool\<close>, which
  accepts exactly the spellings \<open>1\<close>, \<open>t\<close>, \<open>T\<close>, \<open>TRUE\<close>, \<open>true\<close>, \<open>True\<close> (true) and \<open>0\<close>,
  \<open>f\<close>, \<open>F\<close>, \<open>FALSE\<close>, \<open>false\<close>, \<open>False\<close> (false): for a resolved raw value that is one
  of them the accessor returns the boolean, in particular \<open>true\<close> yields true, and for
  every other raw value that is not empty, among them the other casings such as
  \<open>tRuE\<close>, it panics.
\<close>

theorem C7_bool_spellings:
  assumes "GetEnvString st key '''' = raw"
  shows "(raw \<in> {''1'', ''t'', ''T'', ''TRUE'', ''true'', ''True''}
            \<longrightarrow> GetEnvBool L st key d = Inr True)
       \<and> (raw \<in> {''0'', ''f'', ''F'', ''FALSE'', ''false'', ''False''}
            \<longrightarrow> GetEnvBool L st key d = Inr False)
       \<and> (raw \<noteq> '''' \<and> raw \<notin> {''1'', ''t'', ''T'', ''TRUE'', ''true'', ''True'',
                                  ''0'', ''f'', ''F'', ''FALSE'', ''false'', ''False''}
            \<longrightarrow> isl (GetEnvBool L st key d))"
proof (intro conjI impI)
  assume "raw \<in> {''1'', ''t'', ''T'', ''TRUE'', ''true'', ''True''}"
  then have "ParseBool L raw = Inr True" and "raw \<noteq> ''''"
    by (auto simp: ParseBool_def)
  with assms show "GetEnvBool L st key d = Inr True"
    by (simp add: GetEnvBool_def)
next
  assume "raw \<in> {''0'', ''f'', ''F'', ''FALSE'', ''false'', ''False''}"
  then have "ParseBool L raw = Inr False" and "raw \<noteq> ''''"
    by (auto simp: ParseBool_def)
  with assms show "GetEnvBool L st key d = Inr False"
    by (simp add: GetEnvBool_def)
next
  assume "raw \<noteq> '''' \<and> raw \<notin> {''1'', ''t'', ''T'', ''TRUE'', ''true'', ''True'',
                                  ''0'', ''f'', ''F'', ''FALSE'', ''false'', ''False''}"
  then have "isl (ParseBool L raw)" and "raw \<noteq> ''''"
    by (auto simp: ParseBool_def)
  with assms show "isl (GetEnvBool L st key d)"
    by (cases "ParseBool L raw") (simp_all add: GetEnvBool_def)
qed

theorem C7_bool_spellings_witness:
  "GetEnvString \<lparr>environ = [''B'' \<mapsto> ''true''], envMap = Map.empty\<rparr> ''B'' '''' = ''true''
   \<and> GetEnvBool exampleLib \<lparr>environ = [''B'' \<mapsto> ''true''], envMap = Map.empty\<rparr> ''B'' False
       = Inr True
   \<and> GetEnvString \<lparr>environ = Map.empty, envMap = [''B'' \<mapsto> ''F'']\<rparr> ''B'' '''' = ''F''
   \<and> GetEnvBool exampleLib \<lparr>environ = Map.empty, envMap = [''B'' \<mapsto> ''F'']\<rparr> ''B'' True
       = Inr False
   \<and> GetEnvString \<lparr>environ = [''B'' \<mapsto> ''yes''], envMap = Map.empty\<rparr> ''B'' '''' = ''yes''
   \<and> isl (GetEnvBool exampleLib \<lparr>environ = [''B'' \<mapsto> ''yes''], envMap = Map.empty\<rparr> ''B'' True)"
proof -
  let ?s1 = "\<lparr>environ = [''B'' \<mapsto> ''true''], envMap = Map.empty\<rparr>"
  let ?s2 = "\<lparr>environ = Map.empty, envMap = [''B'' \<mapsto> ''F'']\<rparr>"
  let ?s3 = "\<lparr>environ = [''B'' \<mapsto> ''yes''], envMap = Map.empty\<rparr>"
  have h1: "GetEnvString ?s1 ''B'' '''' = ''true''"
    by (simp add: GetEnvString_def LookupEnv_def)
  have h2: "GetEnvString ?s2 ''B'' '''' = ''F''"
    by (simp add: GetEnvString_def LookupEnv_def)
  have h3: "GetEnvString ?s3 ''B'' '''' = ''yes''"
    by (simp add: GetEnvString_def LookupEnv_def)
  have a: "GetEnvBool exampleLib ?s1 ''B'' False = Inr True"
    using C7_bool_spellings [OF h1, of exampleLib False] by simp
  have b: "GetEnvBool exampleLib ?s2 ''B'' True = Inr False"
    using C7_bool_spellings [OF h2, of exampleLib True] by simp
  have c: "isl (GetEnvBool exampleLib ?s3 ''B'' True)"
    using C7_bool_spellings [OF h3, of exampleLib True] by simp
  from h1 h2 h3 a b c show ?thesis by blast
qed

text \<open>
  The claim C7 as the specification words it (every casing of the six spellings is
  accepted) fails: the raw value \<open>tRuE\<close> is a casing of \<open>true\<close>, and \<open>GetEnvBool\<close>
  panics on it.
\<close>

theorem C7_mixed_case_counterexample:
  "GetEnvBool exampleLib \<lparr>environ = [''B'' \<mapsto> ''tRuE''], envMap = Map.empty\<rparr> ''B'' False
     = Inl (''Environment variable B is not a valid boolean: strconv.ParseBool: parsing ''
            @ [CHR 0x22] @ ''tRuE'' @ [CHR 0x22] @ '': invalid syntax'')"
  by (simp add: GetEnvBool_def GetEnvString_def LookupEnv_def ParseBool_def example_defs)

text \<open>
  Claim C8. No operation of the library, neither the scan of \<open>init\<close> nor a call of an
  accessor, writes into the process environment: after any sequence of operations, run
  from any state, the process environment is what it was before, for every key.
\<close>

theorem C8_process_environment_never_written:
  "environ (fst (run L st ops)) = environ st"
proof (induction ops arbitrary: st)
  case Nil
  show ?case by simp
next
  case (Cons op ops)
  show ?case
  proof (cases op)
    case (Scan H)
    have "environ (fst (run L (init H st) ops)) = environ (init H st)"
      by (rule Cons.IH)
    with Scan show ?thesis by (simp add: environ_init)
  next
    case (Access c)
    have "environ (fst (run L st ops)) = environ st"
      by (rule Cons.IH)
    with Access show ?thesis by (auto split: sum.splits prod.splits)
  qed
qed

theorem C8_process_environment_never_written_witness:
  "environ (fst (run exampleLib \<lparr>environ = [''HOME'' \<mapsto> ''/root''], envMap = Map.empty\<rparr>
                   [Scan exampleHost, Access (CallInt ''PORT'' 80), Access (CallString ''HOME'' [])]))
     = [''HOME'' \<mapsto> ''/root'']"
  using C8_process_environment_never_written
          [of exampleLib "\<lparr>environ = [''HOME'' \<mapsto> ''/root''], envMap = Map.empty\<rparr>"
              "[Scan exampleHost, Access (CallInt ''PORT'' 80), Access (CallString ''HOME'' [])]"]
  by simp

text \<open>
  Claim C9. Every accessor is deterministic and reading has no side effect. A call of
  any accessor, followed through its reads of the process environment and of \<open>envMap\<close>,
  leaves the state (process environment and \<open>envMap\<close>) exactly as it found it; so a
  second call of the same accessor with the same key, delimiters and default, made
  right after the first or after any number of other accessor calls, returns the result
  of the first; and that result is the accessor's value on the state.
\<close>

theorem C9_accessors_repeatable:
  "snd (perform L c st) = st
   \<and> fst (perform L c st) = answer L st c
   \<and> perform L c (snd (perform L c st)) = perform L c st
   \<and> perform L c (stateAfter L cs st) = perform L c st"
  by (simp add: perform_eq stateAfter_eq)

theorem C9_accessors_repeatable_witness:
  "perform exampleLib (CallInt ''N'' 0) \<lparr>environ = [''N'' \<mapsto> ''42''], envMap = [''M'' \<mapsto> ''x'']\<rparr>
     = (Inr (VInt 42), \<lparr>environ = [''N'' \<mapsto> ''42''], envMap = [''M'' \<mapsto> ''x'']\<rparr>)
   \<and> perform exampleLib (CallInt ''N'' 0)
        (snd (perform exampleLib (CallInt ''N'' 0)
                \<lparr>environ = [''N'' \<mapsto> ''42''], envMap = [''M'' \<mapsto> ''x'']\<rparr>))
     = (Inr (VInt 42), \<lparr>environ = [''N'' \<mapsto> ''42''], envMap = [''M'' \<mapsto> ''x'']\<rparr>)
   \<and> perform exampleLib (CallInt ''N'' 0)
        (stateAfter exampleLib [CallString ''M'' ''d'', CallBool ''N'' False, CallInt ''N'' 0]
           \<lparr>environ = [''N'' \<mapsto> ''42''], envMap = [''M'' \<mapsto> ''x'']\<rparr>)
     = (Inr (VInt 42), \<lparr>environ = [''N'' \<mapsto> ''42''], envMap = [''M'' \<mapsto> ''x'']\<rparr>)"
proof -
  let ?st = "\<lparr>environ = [''N'' \<mapsto> ''42''], envMap = [''M'' \<mapsto> ''x'']\<rparr>"
  let ?c = "CallInt ''N'' 0 :: (real, int) call"
  have first: "perform exampleLib ?c ?st = (Inr (VInt 42), ?st)"
    by (simp add: GetEnvInt_step_def GetEnvString_step_def readEnviron_def readEnvMap_def
          LookupEnv_def example_defs)
  from C9_accessors_repeatable
         [of exampleLib ?c ?st "[CallString ''M'' ''d'', CallBool ''N'' False, CallInt ''N'' 0]"]
       first
  show ?thesis by simp
qed

text \<open>
  Claim C10. A key that is set in the process environment to the empty string shadows
  the entry of \<open>envMap\<close> for that key: \<open>GetEnvString\<close> returns the empty string (not the
  value of \<open>envMap\<close> and not the default), and every other accessor returns the caller's
  default, whatever \<open>envMap\<close> holds for the key.
\<close>

theorem C10_empty_environment_value_shadows:
  assumes "environ st key = Some ''''"
  shows "GetEnvString st key d = ''''
       \<and> (\<forall>c. keyOf c = key \<and> \<not> plainString c \<longrightarrow> answer L st c = Inr (defaultOf c))"
proof -
  have raw: "GetEnvString st key x = ''''" for x
    using assms by (rule GetEnvString_environ)
  then show ?thesis
    by (auto intro: answer_of_raw_empty)
qed


theorem C10_empty_environment_value_shadows_witness:
  "environ \<lparr>environ = [''K'' \<mapsto> ''''], envMap = [''K'' \<mapsto> ''42'']\<rparr> ''K'' = Some ''''
   \<and> GetEnvString \<lparr>environ = [''K'' \<mapsto> ''''], envMap = [''K'' \<mapsto> ''42'']\<rparr> ''K'' ''fallback'' = ''''
   \<and> answer exampleLib \<lparr>environ = [''K'' \<mapsto> ''''], envMap = [''K'' \<mapsto> ''42'']\<rparr>
        (CallInt ''K'' 7) = Inr (VInt 7)"
proof -
  let ?st = "\<lparr>environ = [''K'' \<mapsto> ''''], envMap = [''K'' \<mapsto> ''42'']\<rparr>"
  have h: "environ ?st ''K'' = Some ''''" by simp
  note t = C10_empty_environment_value_shadows [OF h, of "''fallback''" exampleLib]
  from t have a: "GetEnvString ?st ''K'' ''fallback'' = ''''"
    by (rule conjunct1)
  from t have "\<forall>c. keyOf c = ''K'' \<and> \<not> plainString c
                 \<longrightarrow> answer exampleLib ?st c = Inr (defaultOf c)"
    by (rule conjunct2)
  from this [rule_format, of "CallInt ''K'' 7"]
  have b: "answer exampleLib ?st (CallInt ''K'' 7) = Inr (VInt 7)"
    by simp
  from h a b show ?thesis by simp
qed

end
